theory Spec2Isabelle
  imports Complex_Main
begin

section \<open>Values of numpy arrays\<close>

text \<open>
  An element of a float array is a finite number, one of the two infinities, or NaN.
  A finite element is modelled by the real number it stands for: rounding and overflow
  of the 64-bit format are not part of the model, and neither is the sign of zero.
  What the model keeps is where numpy leaves the finite numbers: \<open>log\<close> of zero is
  \<open>-inf\<close>, \<open>log\<close> of a negative number is \<open>nan\<close>, a division by zero is an
  infinity or \<open>nan\<close>, and the special values propagate through the arithmetic the way
  IEEE 754 says.
\<close>

datatype npfloat = Fin real | PInf | NInf | NaN

fun np_neg :: "npfloat \<Rightarrow> npfloat" where
  "np_neg (Fin x) = Fin (- x)"
| "np_neg PInf = NInf"
| "np_neg NInf = PInf"
| "np_neg NaN = NaN"

fun np_add :: "npfloat \<Rightarrow> npfloat \<Rightarrow> npfloat" where
  "np_add (Fin x) (Fin y) = Fin (x + y)"
| "np_add (Fin x) PInf = PInf"
| "np_add (Fin x) NInf = NInf"
| "np_add PInf (Fin y) = PInf"
| "np_add NInf (Fin y) = NInf"
| "np_add PInf PInf = PInf"
| "np_add NInf NInf = NInf"
| "np_add PInf NInf = NaN"
| "np_add NInf PInf = NaN"
| "np_add NaN y = NaN"
| "np_add x NaN = NaN"

definition np_sub :: "npfloat \<Rightarrow> npfloat \<Rightarrow> npfloat" where
  "np_sub x y = np_add x (np_neg y)"

text \<open>The product of an infinity and zero is NaN.\<close>

fun np_mul :: "npfloat \<Rightarrow> npfloat \<Rightarrow> npfloat" where
  "np_mul (Fin x) (Fin y) = Fin (x * y)"
| "np_mul (Fin x) PInf = (if 0 < x then PInf else if x < 0 then NInf else NaN)"
| "np_mul (Fin x) NInf = (if 0 < x then NInf else if x < 0 then PInf else NaN)"
| "np_mul PInf (Fin y) = (if 0 < y then PInf else if y < 0 then NInf else NaN)"
| "np_mul NInf (Fin y) = (if 0 < y then NInf else if y < 0 then PInf else NaN)"
| "np_mul PInf PInf = PInf"
| "np_mul NInf NInf = PInf"
| "np_mul PInf NInf = NInf"
| "np_mul NInf PInf = NInf"
| "np_mul NaN y = NaN"
| "np_mul x NaN = NaN"

text \<open>
  numpy does not raise on a division by zero: \<open>0 / 0\<close> is NaN and \<open>x / 0\<close> is an
  infinity. The zero divisor is taken as \<open>+0.0\<close>, the sign of zero not being modelled.
\<close>

fun np_div :: "npfloat \<Rightarrow> npfloat \<Rightarrow> npfloat" where
  "np_div (Fin x) (Fin y) =
     (if y \<noteq> 0 then Fin (x / y)
      else if 0 < x then PInf else if x < 0 then NInf else NaN)"
| "np_div (Fin x) PInf = Fin 0"
| "np_div (Fin x) NInf = Fin 0"
| "np_div PInf (Fin y) = (if 0 \<le> y then PInf else NInf)"
| "np_div NInf (Fin y) = (if 0 \<le> y then NInf else PInf)"
| "np_div PInf PInf = NaN"
| "np_div NInf NInf = NaN"
| "np_div PInf NInf = NaN"
| "np_div NInf PInf = NaN"
| "np_div NaN y = NaN"
| "np_div x NaN = NaN"

text \<open>\<open>x ** 2\<close>\<close>

fun np_square :: "npfloat \<Rightarrow> npfloat" where
  "np_square (Fin x) = Fin (x\<^sup>2)"
| "np_square PInf = PInf"
| "np_square NInf = PInf"
| "np_square NaN = NaN"

text \<open>\<open>np.sqrt\<close>: NaN below zero.\<close>

fun np_sqrt :: "npfloat \<Rightarrow> npfloat" where
  "np_sqrt (Fin x) = (if 0 \<le> x then Fin (sqrt x) else NaN)"
| "np_sqrt PInf = PInf"
| "np_sqrt NInf = NaN"
| "np_sqrt NaN = NaN"

text \<open>
  \<open>x ** 0.5\<close>. It differs from \<open>np.sqrt\<close> at \<open>-inf\<close> only, where C's \<open>pow\<close> gives
  \<open>inf\<close>; the base in this module is a sum of two squares, which is never \<open>-inf\<close>.
\<close>

fun np_pow_half :: "npfloat \<Rightarrow> npfloat" where
  "np_pow_half (Fin x) = (if 0 \<le> x then Fin (sqrt x) else NaN)"
| "np_pow_half PInf = PInf"
| "np_pow_half NInf = PInf"
| "np_pow_half NaN = NaN"

fun np_exp :: "npfloat \<Rightarrow> npfloat" where
  "np_exp (Fin x) = Fin (exp x)"
| "np_exp PInf = PInf"
| "np_exp NInf = Fin 0"
| "np_exp NaN = NaN"

text \<open>\<open>np.log\<close>: \<open>-inf\<close> at zero, NaN below zero; nothing is raised.\<close>

fun np_log :: "npfloat \<Rightarrow> npfloat" where
  "np_log (Fin x) = (if 0 < x then Fin (ln x) else if x = 0 then NInf else NaN)"
| "np_log PInf = PInf"
| "np_log NInf = NaN"
| "np_log NaN = NaN"

fun np_cos :: "npfloat \<Rightarrow> npfloat" where
  "np_cos (Fin x) = Fin (cos x)"
| "np_cos PInf = NaN"
| "np_cos NInf = NaN"
| "np_cos NaN = NaN"

fun np_sin :: "npfloat \<Rightarrow> npfloat" where
  "np_sin (Fin x) = Fin (sin x)"
| "np_sin PInf = NaN"
| "np_sin NInf = NaN"
| "np_sin NaN = NaN"

text \<open>\<open>np.radians\<close>: degrees to radians.\<close>

fun np_radians :: "npfloat \<Rightarrow> npfloat" where
  "np_radians (Fin x) = Fin (x * pi / 180)"
| "np_radians PInf = PInf"
| "np_radians NInf = NInf"
| "np_radians NaN = NaN"

text \<open>
  The angle of the point \<open>(x, y)\<close> in \<open>(-pi, pi]\<close>, with \<open>arctan2 0 0 = 0\<close>, as C's
  \<open>atan2\<close> has it.
\<close>

definition arctan2 :: "real \<Rightarrow> real \<Rightarrow> real" where
  "arctan2 y x =
     (if 0 < x then arctan (y / x)
      else if x < 0 then (if 0 \<le> y then arctan (y / x) + pi else arctan (y / x) - pi)
      else if 0 < y then pi / 2
      else if y < 0 then - (pi / 2)
      else 0)"

fun np_arctan2 :: "npfloat \<Rightarrow> npfloat \<Rightarrow> npfloat" where
  "np_arctan2 (Fin y) (Fin x) = Fin (arctan2 y x)"
| "np_arctan2 (Fin y) PInf = Fin 0"
| "np_arctan2 (Fin y) NInf = (if 0 \<le> y then Fin pi else Fin (- pi))"
| "np_arctan2 PInf (Fin x) = Fin (pi / 2)"
| "np_arctan2 NInf (Fin x) = Fin (- (pi / 2))"
| "np_arctan2 PInf PInf = Fin (pi / 4)"
| "np_arctan2 PInf NInf = Fin (3 * pi / 4)"
| "np_arctan2 NInf PInf = Fin (- (pi / 4))"
| "np_arctan2 NInf NInf = Fin (- (3 * pi / 4))"
| "np_arctan2 NaN x = NaN"
| "np_arctan2 y NaN = NaN"

section \<open>Colour triples\<close>

text \<open>
  An array of shape \<open>(3,)\<close> is a triple of channels; an array of shape \<open>(N, 3)\<close> is a
  list of \<open>N\<close> triples.
\<close>

type_synonym triple = "npfloat \<times> npfloat \<times> npfloat"

text \<open>
  Modelled from the spec: \<open>colour.utilities.tsplit\<close> and \<open>colour.utilities.tstack\<close>
  are not among the sources. The spec has \<open>tsplit\<close> split the input into its three
  channels along the last axis, and \<open>tstack\<close> stack three channels back along a new
  last axis, the leading shape unchanged.
\<close>

definition tsplit :: "triple \<Rightarrow> npfloat \<times> npfloat \<times> npfloat" where
  "tsplit Lab = (fst Lab, fst (snd Lab), snd (snd Lab))"

definition tstack :: "npfloat \<times> npfloat \<times> npfloat \<Rightarrow> triple" where
  "tstack c = (fst c, fst (snd c), snd (snd c))"

section \<open>The DIN99 transformations on one triple\<close>

definition Lab_to_DIN99 :: "triple \<Rightarrow> real \<Rightarrow> real \<Rightarrow> triple" where
  "Lab_to_DIN99 Lab k_E k_CH =
     (case tsplit Lab of (L, a, b) \<Rightarrow>
        let cos_16 = np_cos (np_radians (Fin 16));
            sin_16 = np_sin (np_radians (Fin 16));
            e = np_add (np_mul cos_16 a) (np_mul sin_16 b);
            f = np_mul (Fin 0.7) (np_add (np_mul (np_neg sin_16) a) (np_mul cos_16 b));
            G = np_pow_half (np_add (np_square e) (np_square f));
            h_ef = np_arctan2 f e;
            C_99 = np_div (np_log (np_add (Fin 1) (np_mul (Fin 0.045) G)))
                          (np_mul (np_mul (Fin 0.045) (Fin k_CH)) (Fin k_E));
            a_99 = np_mul C_99 (np_cos h_ef);
            b_99 = np_mul C_99 (np_sin h_ef);
            L_99 = np_mul (np_mul (Fin 105.509)
                                  (np_log (np_add (Fin 1) (np_mul (Fin 0.0158) L))))
                          (Fin k_E)
        in tstack (L_99, a_99, b_99))"

definition DIN99_to_Lab :: "triple \<Rightarrow> real \<Rightarrow> real \<Rightarrow> triple" where
  "DIN99_to_Lab Lab_99 k_E k_CH =
     (case tsplit Lab_99 of (L_99, a_99, b_99) \<Rightarrow>
        let cos_16 = np_cos (np_radians (Fin 16));
            sin_16 = np_sin (np_radians (Fin 16));
            h_99 = np_arctan2 b_99 a_99;
            C_99 = np_sqrt (np_add (np_square a_99) (np_square b_99));
            G = np_div (np_sub (np_exp (np_mul (np_mul (np_mul (Fin 0.045) C_99) (Fin k_CH))
                                               (Fin k_E)))
                               (Fin 1))
                       (Fin 0.045);
            e = np_mul G (np_cos h_99);
            f = np_mul G (np_sin h_99);
            a = np_sub (np_mul e cos_16) (np_mul (np_div f (Fin 0.7)) sin_16);
            b = np_add (np_mul e sin_16) (np_mul (np_div f (Fin 0.7)) cos_16);
            L = np_div (np_sub (np_exp (np_div (np_mul L_99 (Fin k_E)) (Fin 105.509)))
                               (Fin 1))
                       (Fin 0.0158)
        in tstack (L, a, b))"

text \<open>
  The two rotation constants as real numbers: the finite values of \<open>cos_16\<close> and
  \<open>sin_16\<close> in both functions.
\<close>

definition cos16 :: real where
  "cos16 = cos (16 * pi / 180)"

definition sin16 :: real where
  "sin16 = sin (16 * pi / 180)"

section \<open>The DIN99 transformations on a batch of triples\<close>

text \<open>
  On an array of shape \<open>(N, 3)\<close> each channel is an array of \<open>N\<close> elements, and the
  same source lines compute with numpy's broadcasting: a function of one array works on
  each element, an operation on two arrays of one shape works on the elements at the same
  position, and an operation on a scalar and an array pairs the scalar with each element.
\<close>

definition elementwise :: "(npfloat \<Rightarrow> npfloat \<Rightarrow> npfloat) \<Rightarrow> npfloat list \<Rightarrow> npfloat list \<Rightarrow> npfloat list" where
  "elementwise op xs ys = map2 op xs ys"

definition scalar_array :: "(npfloat \<Rightarrow> npfloat \<Rightarrow> npfloat) \<Rightarrow> npfloat \<Rightarrow> npfloat list \<Rightarrow> npfloat list" where
  "scalar_array op c xs = map (op c) xs"

definition array_scalar :: "(npfloat \<Rightarrow> npfloat \<Rightarrow> npfloat) \<Rightarrow> npfloat list \<Rightarrow> npfloat \<Rightarrow> npfloat list" where
  "array_scalar op xs c = map (\<lambda>x. op x c) xs"

text \<open>
  Modelled from the spec: \<open>tsplit\<close> and \<open>tstack\<close> on a batch, the leading axis kept.
\<close>

definition tsplit_batch :: "triple list \<Rightarrow> npfloat list \<times> npfloat list \<times> npfloat list" where
  "tsplit_batch Lab = (map fst Lab, map (\<lambda>t. fst (snd t)) Lab, map (\<lambda>t. snd (snd t)) Lab)"

definition tstack_batch :: "npfloat list \<times> npfloat list \<times> npfloat list \<Rightarrow> triple list" where
  "tstack_batch c = zip (fst c) (zip (fst (snd c)) (snd (snd c)))"

definition Lab_to_DIN99_batch :: "triple list \<Rightarrow> real \<Rightarrow> real \<Rightarrow> triple list" where
  "Lab_to_DIN99_batch Lab k_E k_CH =
     (case tsplit_batch Lab of (L, a, b) \<Rightarrow>
        let cos_16 = np_cos (np_radians (Fin 16));
            sin_16 = np_sin (np_radians (Fin 16));
            e = elementwise np_add (scalar_array np_mul cos_16 a) (scalar_array np_mul sin_16 b);
            f = scalar_array np_mul (Fin 0.7)
                  (elementwise np_add (scalar_array np_mul (np_neg sin_16) a)
                                      (scalar_array np_mul cos_16 b));
            G = map np_pow_half (elementwise np_add (map np_square e) (map np_square f));
            h_ef = elementwise np_arctan2 f e;
            C_99 = array_scalar np_div
                     (map np_log (scalar_array np_add (Fin 1) (scalar_array np_mul (Fin 0.045) G)))
                     (np_mul (np_mul (Fin 0.045) (Fin k_CH)) (Fin k_E));
            a_99 = elementwise np_mul C_99 (map np_cos h_ef);
            b_99 = elementwise np_mul C_99 (map np_sin h_ef);
            L_99 = array_scalar np_mul
                     (scalar_array np_mul (Fin 105.509)
                        (map np_log (scalar_array np_add (Fin 1)
                                       (scalar_array np_mul (Fin 0.0158) L))))
                     (Fin k_E)
        in tstack_batch (L_99, a_99, b_99))"

definition DIN99_to_Lab_batch :: "triple list \<Rightarrow> real \<Rightarrow> real \<Rightarrow> triple list" where
  "DIN99_to_Lab_batch Lab_99 k_E k_CH =
     (case tsplit_batch Lab_99 of (L_99, a_99, b_99) \<Rightarrow>
        let cos_16 = np_cos (np_radians (Fin 16));
            sin_16 = np_sin (np_radians (Fin 16));
            h_99 = elementwise np_arctan2 b_99 a_99;
            C_99 = map np_sqrt (elementwise np_add (map np_square a_99) (map np_square b_99));
            G = array_scalar np_div
                  (array_scalar np_sub
                     (map np_exp
                        (array_scalar np_mul
                           (array_scalar np_mul (scalar_array np_mul (Fin 0.045) C_99)
                                                (Fin k_CH))
                           (Fin k_E)))
                     (Fin 1))
                  (Fin 0.045);
            e = elementwise np_mul G (map np_cos h_99);
            f = elementwise np_mul G (map np_sin h_99);
            a = elementwise np_sub (array_scalar np_mul e cos_16)
                  (array_scalar np_mul (array_scalar np_div f (Fin 0.7)) sin_16);
            b = elementwise np_add (array_scalar np_mul e sin_16)
                  (array_scalar np_mul (array_scalar np_div f (Fin 0.7)) cos_16);
            L = array_scalar np_div
                  (array_scalar np_sub
                     (map np_exp
                        (array_scalar np_div (array_scalar np_mul L_99 (Fin k_E))
                                             (Fin 105.509)))
                     (Fin 1))
                  (Fin 0.0158)
        in tstack_batch (L, a, b))"

section \<open>Arithmetic of the array values\<close>

lemma np_mul_commute: "np_mul x y = np_mul y x"
  by (cases x; cases y) (simp_all add: mult.commute)

lemma np_mul_one: "np_mul x (Fin 1) = x"
  by (cases x) simp_all

lemma np_cos_16: "np_cos (np_radians (Fin 16)) = Fin cos16"
  by (simp add: cos16_def)

lemma np_sin_16: "np_sin (np_radians (Fin 16)) = Fin sin16"
  by (simp add: sin16_def)

lemma cos16_sin16: "cos16 * cos16 + sin16 * sin16 = 1"
  unfolding cos16_def sin16_def using sin_cos_squared_add2 [of "16 * pi / 180"]
  by (simp add: power2_eq_square)

section \<open>The hue angle\<close>

lemma arctan_polar:
  fixes x y :: real
  assumes "x \<noteq> 0"
  shows "cos (arctan (y / x)) = \<bar>x\<bar> / sqrt (x\<^sup>2 + y\<^sup>2)"
    and "sin (arctan (y / x)) = (y / x) * \<bar>x\<bar> / sqrt (x\<^sup>2 + y\<^sup>2)"
proof -
  have "1 + (y / x)\<^sup>2 = (x\<^sup>2 + y\<^sup>2) / x\<^sup>2"
    using assms by (simp add: field_simps)
  then have key: "sqrt (1 + (y / x)\<^sup>2) = sqrt (x\<^sup>2 + y\<^sup>2) / \<bar>x\<bar>"
    by (simp add: real_sqrt_divide)
  show "cos (arctan (y / x)) = \<bar>x\<bar> / sqrt (x\<^sup>2 + y\<^sup>2)"
    by (simp add: cos_arctan key)
  show "sin (arctan (y / x)) = (y / x) * \<bar>x\<bar> / sqrt (x\<^sup>2 + y\<^sup>2)"
    by (simp add: sin_arctan key)
qed

lemma cos_arctan2:
  assumes "x \<noteq> 0 \<or> y \<noteq> 0"
  shows "cos (arctan2 y x) = x / sqrt (x\<^sup>2 + y\<^sup>2)"
proof -
  consider "0 < x" | "x < 0" | "x = 0" "y \<noteq> 0" using assms by fastforce
  then show ?thesis
  proof cases
    case 1
    then show ?thesis by (simp add: arctan2_def arctan_polar(1))
  next
    case 2
    then show ?thesis by (simp add: arctan2_def arctan_polar(1))
  next
    case 3
    then show ?thesis by (simp add: arctan2_def)
  qed
qed

lemma sin_arctan2:
  assumes "x \<noteq> 0 \<or> y \<noteq> 0"
  shows "sin (arctan2 y x) = y / sqrt (x\<^sup>2 + y\<^sup>2)"
proof -
  consider "0 < x" | "x < 0" | "x = 0" "0 < y" | "x = 0" "y < 0" using assms by fastforce
  then show ?thesis
  proof cases
    case 1
    then show ?thesis by (simp add: arctan2_def arctan_polar(2))
  next
    case 2
    then show ?thesis by (simp add: arctan2_def arctan_polar(2))
  next
    case 3
    then show ?thesis by (simp add: arctan2_def)
  next
    case 4
    then show ?thesis by (simp add: arctan2_def)
  qed
qed

lemma arctan2_zero: "arctan2 0 0 = 0"
  by (simp add: arctan2_def)

lemma polar_cos: "sqrt (x\<^sup>2 + y\<^sup>2) * cos (arctan2 y x) = x"
proof (cases "x = 0 \<and> y = 0")
  case True
  then show ?thesis by simp
next
  case False
  then have "sqrt (x\<^sup>2 + y\<^sup>2) \<noteq> 0" by (simp add: sum_power2_eq_zero_iff)
  with False show ?thesis by (simp add: cos_arctan2)
qed

lemma polar_sin: "sqrt (x\<^sup>2 + y\<^sup>2) * sin (arctan2 y x) = y"
proof (cases "x = 0 \<and> y = 0")
  case True
  then show ?thesis by (simp add: arctan2_zero)
next
  case False
  then have "sqrt (x\<^sup>2 + y\<^sup>2) \<noteq> 0" by (simp add: sum_power2_eq_zero_iff)
  with False show ?thesis by (simp add: sin_arctan2)
qed

section \<open>The two functions on finite channels\<close>

lemma Lab_to_DIN99_Fin:
  "Lab_to_DIN99 (L, Fin a, Fin b) k_E k_CH =
     (let e = cos16 * a + sin16 * b;
          f = 0.7 * (- sin16 * a + cos16 * b);
          G = sqrt (e\<^sup>2 + f\<^sup>2);
          h_ef = arctan2 f e;
          C_99 = np_div (Fin (ln (1 + 0.045 * G))) (Fin (0.045 * k_CH * k_E))
      in (np_mul (np_mul (Fin 105.509) (np_log (np_add (Fin 1) (np_mul (Fin 0.0158) L))))
                 (Fin k_E),
          np_mul C_99 (Fin (cos h_ef)),
          np_mul C_99 (Fin (sin h_ef))))"
proof -
  have pos: "0 < 1 + 0.045 * sqrt (x\<^sup>2 + y\<^sup>2)" for x y :: real
  proof -
    have "0 \<le> 0.045 * sqrt (x\<^sup>2 + y\<^sup>2)" by simp
    then show ?thesis by (rule add_pos_nonneg [OF zero_less_one])
  qed
  show ?thesis
    unfolding Lab_to_DIN99_def tsplit_def tstack_def Let_def np_cos_16 np_sin_16
    using pos by simp
qed

lemma DIN99_to_Lab_Fin:
  "DIN99_to_Lab (L_99, Fin a_99, Fin b_99) k_E k_CH =
     (let h_99 = arctan2 b_99 a_99;
          C_99 = sqrt (a_99\<^sup>2 + b_99\<^sup>2);
          G = (exp (0.045 * C_99 * k_CH * k_E) - 1) / 0.045;
          e = G * cos h_99;
          f = G * sin h_99
      in (np_div (np_sub (np_exp (np_div (np_mul L_99 (Fin k_E)) (Fin 105.509))) (Fin 1))
                 (Fin 0.0158),
          Fin (e * cos16 - (f / 0.7) * sin16),
          Fin (e * sin16 + (f / 0.7) * cos16)))"
  unfolding DIN99_to_Lab_def tsplit_def tstack_def Let_def np_cos_16 np_sin_16
  by (simp add: np_sub_def)

lemma Lab_to_DIN99_L:
  "fst (Lab_to_DIN99 Lab k_E k_CH) =
     np_mul (np_mul (Fin 105.509) (np_log (np_add (Fin 1) (np_mul (Fin 0.0158) (fst Lab)))))
            (Fin k_E)"
  by (simp add: Lab_to_DIN99_def tsplit_def tstack_def Let_def split_beta)

lemma DIN99_to_Lab_L:
  "fst (DIN99_to_Lab Lab_99 k_E k_CH) =
     np_div (np_sub (np_exp (np_div (np_mul (fst Lab_99) (Fin k_E)) (Fin 105.509))) (Fin 1))
            (Fin 0.0158)"
  by (simp add: DIN99_to_Lab_def tsplit_def tstack_def Let_def split_beta)

lemma Lab_to_DIN99_L_Fin:
  assumes "0 < 1 + 0.0158 * L"
  shows "fst (Lab_to_DIN99 (Fin L, a, b) k_E k_CH) = Fin (105.509 * ln (1 + 0.0158 * L) * k_E)"
  using assms by (simp add: Lab_to_DIN99_L)

lemma DIN99_to_Lab_L_Fin:
  "fst (DIN99_to_Lab (Fin L_99, a_99, b_99) k_E k_CH) =
     Fin ((exp (L_99 * k_E / 105.509) - 1) / 0.0158)"
  by (simp add: DIN99_to_Lab_L np_sub_def)

lemma Lab_to_DIN99_chroma:
  assumes "k_CH * k_E \<noteq> 0"
  shows "snd (Lab_to_DIN99 (L, Fin a, Fin b) k_E k_CH) =
     (let e = cos16 * a + sin16 * b;
          f = 0.7 * (- sin16 * a + cos16 * b);
          C_99 = ln (1 + 0.045 * sqrt (e\<^sup>2 + f\<^sup>2)) / (0.045 * k_CH * k_E)
      in (Fin (C_99 * cos (arctan2 f e)), Fin (C_99 * sin (arctan2 f e))))"
proof -
  have "0.045 * k_CH * k_E \<noteq> 0" using assms by simp
  then show ?thesis
    by (simp add: Lab_to_DIN99_Fin Let_def)
qed

section \<open>Round trips\<close>

lemma chroma_roundtrip:
  fixes e f k_E k_CH :: real
  assumes k: "0 < k_CH" "0 < k_E"
  defines "G \<equiv> sqrt (e\<^sup>2 + f\<^sup>2)"
  defines "C \<equiv> ln (1 + 0.045 * G) / (0.045 * k_CH * k_E)"
  defines "x \<equiv> C * cos (arctan2 f e)"
  defines "y \<equiv> C * sin (arctan2 f e)"
  shows "(exp (0.045 * sqrt (x\<^sup>2 + y\<^sup>2) * k_CH * k_E) - 1) / 0.045 * cos (arctan2 y x) = e"
    and "(exp (0.045 * sqrt (x\<^sup>2 + y\<^sup>2) * k_CH * k_E) - 1) / 0.045 * sin (arctan2 y x) = f"
proof -
  have G0: "0 \<le> G" by (simp add: G_def)
  have "0 \<le> 0.045 * G" using G0 by simp
  then have arg: "1 \<le> 1 + 0.045 * G" by linarith
  then have lnn: "0 \<le> ln (1 + 0.045 * G)" by (rule ln_ge_zero)
  have den: "0 < 0.045 * k_CH * k_E" using k by simp
  have C0: "0 \<le> C" unfolding C_def using lnn den by (simp add: divide_nonneg_pos)
  have "x\<^sup>2 + y\<^sup>2 = C\<^sup>2 * ((cos (arctan2 f e))\<^sup>2 + (sin (arctan2 f e))\<^sup>2)"
    by (simp only: x_def y_def power_mult_distrib distrib_left)
  then have "x\<^sup>2 + y\<^sup>2 = C\<^sup>2" by (simp only: sin_cos_squared_add2 mult_1_right)
  then have r: "sqrt (x\<^sup>2 + y\<^sup>2) = C" using C0 by simp
  have "0.045 * C * k_CH * k_E = ln (1 + 0.045 * G)"
    unfolding C_def using k by simp
  then have "exp (0.045 * C * k_CH * k_E) = 1 + 0.045 * G"
    using arg by simp
  then have G': "(exp (0.045 * sqrt (x\<^sup>2 + y\<^sup>2) * k_CH * k_E) - 1) / 0.045 = G"
    by (simp add: r)
  have "G * cos (arctan2 y x) = e \<and> G * sin (arctan2 y x) = f"
  proof (cases "C = 0")
    case True
    then have "ln (1 + 0.045 * G) = 0" using k by (simp add: C_def)
    then have "1 + 0.045 * G = 1" using arg by simp
    then have "G = 0" by simp
    then have "e = 0 \<and> f = 0" by (simp add: G_def sum_power2_eq_zero_iff)
    with \<open>G = 0\<close> show ?thesis by simp
  next
    case False
    then have Cpos: "0 < C" using C0 by simp
    then have ne: "x \<noteq> 0 \<or> y \<noteq> 0" using r by auto
    have "cos (arctan2 y x) = x / C" "sin (arctan2 y x) = y / C"
      by (simp_all only: cos_arctan2 [OF ne] sin_arctan2 [OF ne] r)
    then have "cos (arctan2 y x) = cos (arctan2 f e)" "sin (arctan2 y x) = sin (arctan2 f e)"
      using Cpos by (simp_all add: x_def y_def)
    then show ?thesis by (simp add: G_def polar_cos polar_sin)
  qed
  then show "(exp (0.045 * sqrt (x\<^sup>2 + y\<^sup>2) * k_CH * k_E) - 1) / 0.045 * cos (arctan2 y x) = e"
    and "(exp (0.045 * sqrt (x\<^sup>2 + y\<^sup>2) * k_CH * k_E) - 1) / 0.045 * sin (arctan2 y x) = f"
    by (simp_all only: G')
qed

lemma unrotate:
  fixes a b :: real
  shows "(cos16 * a + sin16 * b) * cos16 - (0.7 * (- sin16 * a + cos16 * b) / 0.7) * sin16 = a"
    and "(cos16 * a + sin16 * b) * sin16 + (0.7 * (- sin16 * a + cos16 * b) / 0.7) * cos16 = b"
proof -
  have c: "0.7 * z / 0.7 = z" for z :: real by simp
  have "(cos16 * a + sin16 * b) * cos16 - (- sin16 * a + cos16 * b) * sin16
        = (cos16 * cos16 + sin16 * sin16) * a" by (simp add: algebra_simps)
  then show "(cos16 * a + sin16 * b) * cos16 - (0.7 * (- sin16 * a + cos16 * b) / 0.7) * sin16 = a"
    by (simp only: c cos16_sin16 mult_1)
  have "(cos16 * a + sin16 * b) * sin16 + (- sin16 * a + cos16 * b) * cos16
        = (cos16 * cos16 + sin16 * sin16) * b" by (simp add: algebra_simps)
  then show "(cos16 * a + sin16 * b) * sin16 + (0.7 * (- sin16 * a + cos16 * b) / 0.7) * cos16 = b"
    by (simp only: c cos16_sin16 mult_1)
qed

lemma ab_roundtrip:
  assumes k: "0 < k_E" "0 < k_CH"
  shows "snd (DIN99_to_Lab (Lab_to_DIN99 (L, Fin a, Fin b) k_E k_CH) k_E k_CH) = (Fin a, Fin b)"
proof -
  have ne: "k_CH * k_E \<noteq> 0" using k by simp
  obtain L_99 where "Lab_to_DIN99 (L, Fin a, Fin b) k_E k_CH =
      (L_99, snd (Lab_to_DIN99 (L, Fin a, Fin b) k_E k_CH))"
    by (metis prod.collapse)
  then show ?thesis
    by (simp only: Lab_to_DIN99_chroma [OF ne] Let_def DIN99_to_Lab_Fin snd_conv
          chroma_roundtrip [OF k(2) k(1)] unrotate)
qed

lemma L_roundtrip:
  assumes "0 < 1 + 0.0158 * L"
  shows "fst (DIN99_to_Lab (Lab_to_DIN99 (Fin L, a, b) k_E k_CH) k_E k_CH) =
           Fin (((1 + 0.0158 * L) powr (k_E * k_E) - 1) / 0.0158)"
proof -
  have "fst (DIN99_to_Lab (Lab_to_DIN99 (Fin L, a, b) k_E k_CH) k_E k_CH) =
          Fin ((exp (105.509 * ln (1 + 0.0158 * L) * k_E * k_E / 105.509) - 1) / 0.0158)"
    by (simp only: DIN99_to_Lab_L [of "Lab_to_DIN99 (Fin L, a, b) k_E k_CH"]
          Lab_to_DIN99_L_Fin [OF assms] np_mul.simps np_div.simps np_exp.simps np_sub_def
          np_neg.simps np_add.simps)
       simp
  moreover have "105.509 * ln (1 + 0.0158 * L) * k_E * k_E / 105.509
                   = k_E * k_E * ln (1 + 0.0158 * L)"
    by simp
  ultimately show ?thesis
    using assms by (simp only: powr_def) simp
qed

lemma round_trip_k_E_1:
  assumes "0 < 1 + 0.0158 * L" and "0 < k_CH"
  shows "DIN99_to_Lab (Lab_to_DIN99 (Fin L, Fin a, Fin b) 1 k_CH) 1 k_CH = (Fin L, Fin a, Fin b)"
proof -
  have "fst (DIN99_to_Lab (Lab_to_DIN99 (Fin L, Fin a, Fin b) 1 k_CH) 1 k_CH) = Fin L"
    using assms(1) by (simp add: L_roundtrip)
  moreover have "snd (DIN99_to_Lab (Lab_to_DIN99 (Fin L, Fin a, Fin b) 1 k_CH) 1 k_CH)
                   = (Fin a, Fin b)"
    by (rule ab_roundtrip [OF zero_less_one assms(2)])
  ultimately show ?thesis
    by (metis prod.collapse)
qed

section \<open>Batches\<close>

lemma zip_map_same: "zip (map g xs) (map h xs) = map (\<lambda>x. (g x, h x)) xs"
  by (induction xs) simp_all

lemma elementwise_map:
  "elementwise op (map g xs) (map h xs) = map (\<lambda>x. op (g x) (h x)) xs"
  by (simp add: elementwise_def zip_map_same)

lemma scalar_array_map: "scalar_array op c (map g xs) = map (\<lambda>x. op c (g x)) xs"
  by (simp add: scalar_array_def)

lemma array_scalar_map: "array_scalar op (map g xs) c = map (\<lambda>x. op (g x) c) xs"
  by (simp add: array_scalar_def)

lemma map_map_fun: "map f (map g xs) = map (\<lambda>x. f (g x)) xs"
  by simp

lemma tstack_batch_map:
  "tstack_batch (map g xs, map h xs, map k xs) = map (\<lambda>x. tstack (g x, h x, k x)) xs"
  by (simp add: tstack_batch_def tstack_def zip_map_same)

lemmas batch_fusion = elementwise_map scalar_array_map array_scalar_map map_map_fun
  tstack_batch_map

lemma Lab_to_DIN99_batch_map:
  "Lab_to_DIN99_batch xs k_E k_CH = map (\<lambda>x. Lab_to_DIN99 x k_E k_CH) xs"
  unfolding Lab_to_DIN99_batch_def Lab_to_DIN99_def tsplit_batch_def tsplit_def Let_def
    prod.case
  by (simp only: batch_fusion)

lemma DIN99_to_Lab_batch_map:
  "DIN99_to_Lab_batch xs k_E k_CH = map (\<lambda>x. DIN99_to_Lab x k_E k_CH) xs"
  unfolding DIN99_to_Lab_batch_def DIN99_to_Lab_def tsplit_batch_def tsplit_def Let_def
    prod.case
  by (simp only: batch_fusion)

section \<open>The claims\<close>

text \<open>
  Claim C1 (the round trip \<open>DIN99_to_Lab (Lab_to_DIN99 x k_E k_CH) k_E k_CH = x\<close> for
  every in-domain triple and all positive factors). Both directions multiply the lightness
  by \<open>k_E\<close>, so the round trip raises \<open>1 + 0.0158 L\<close> to the power \<open>k_E * k_E\<close>
  (lemma \<open>L_roundtrip\<close>). Evaluated at \<open>Lab = (50, 0, 0)\<close>, \<open>k_E = 2\<close>, \<open>k_CH = 1\<close>:
  the lightness that comes back is \<open>(1.79 ^ 4 - 1) / 0.0158\<close>, more than 500 above 50.
\<close>

theorem round_trip_with_k_E_2:
  "fst (DIN99_to_Lab (Lab_to_DIN99 (Fin 50, Fin 0, Fin 0) 2 1) 2 1) = Fin ((1.79 ^ 4 - 1) / 0.0158)
   \<and> (500 :: real) < (1.79 ^ 4 - 1) / 0.0158 - 50"
proof -
  have dom: "(0::real) < 1 + 0.0158 * 50" by simp
  have "(1 + 0.0158 * 50 :: real) powr (2 * 2) = 1.79 ^ 4"
  proof -
    have "(1 + 0.0158 * 50 :: real) = 1.79" by simp
    moreover have "(1.79 :: real) powr (2 * 2) = 1.79 powr (numeral (Num.Bit0 (Num.Bit0 Num.One)))" by simp
    moreover have "(1.79 :: real) powr (numeral (Num.Bit0 (Num.Bit0 Num.One))) = 1.79 ^ 4"
      by (subst powr_numeral) simp_all
    ultimately show ?thesis by simp
  qed
  then have "fst (DIN99_to_Lab (Lab_to_DIN99 (Fin 50, Fin 0, Fin 0) 2 1) 2 1)
               = Fin ((1.79 ^ 4 - 1) / 0.0158)"
    by (simp only: L_roundtrip [OF dom])
  moreover have "(500 :: real) < (1.79 ^ 4 - 1) / 0.0158 - 50" by (simp add: power4_eq_xxxx)
  ultimately show ?thesis by simp
qed

text \<open>
  Claim C2: on a finite \<open>L_99\<close> the inverse function returns the lightness
  \<open>(exp (L_99 * k_E / 105.509) - 1) / 0.0158\<close>, and on an in-domain \<open>L\<close> the forward
  function returns \<open>105.509 * ln (1 + 0.0158 * L) * k_E\<close>: both multiply by \<open>k_E\<close>.
\<close>

theorem lightness_expansion_formula:
  "fst (DIN99_to_Lab (Fin L_99, a_99, b_99) k_E k_CH) = Fin ((exp (L_99 * k_E / 105.509) - 1) / 0.0158)
   \<and> (0 < 1 + 0.0158 * L \<longrightarrow>
        fst (Lab_to_DIN99 (Fin L, a, b) k_E k_CH) = Fin (105.509 * ln (1 + 0.0158 * L) * k_E))"
proof (intro conjI impI)
  show "fst (DIN99_to_Lab (Fin L_99, a_99, b_99) k_E k_CH)
          = Fin ((exp (L_99 * k_E / 105.509) - 1) / 0.0158)"
    by (rule DIN99_to_Lab_L_Fin)
  show "fst (Lab_to_DIN99 (Fin L, a, b) k_E k_CH) = Fin (105.509 * ln (1 + 0.0158 * L) * k_E)"
    if "0 < 1 + 0.0158 * L"
    using that by (rule Lab_to_DIN99_L_Fin)
qed

text \<open>
  Claim C2 at \<open>L = 0\<close>, \<open>L_99 = 0\<close>, \<open>k_E = 2\<close>.
\<close>

theorem lightness_expansion_formula_witness:
  "fst (DIN99_to_Lab (Fin 0, Fin 0, Fin 0) 2 1) = Fin ((exp (0 * 2 / 105.509) - 1) / 0.0158)
   \<and> (0::real) < 1 + 0.0158 * 0
   \<and> fst (Lab_to_DIN99 (Fin 0, Fin 0, Fin 0) 2 1) = Fin (105.509 * ln (1 + 0.0158 * 0) * 2)"
  using lightness_expansion_formula [of 0 "Fin 0" "Fin 0" 2 1 0 "Fin 0" "Fin 0"] by simp

text \<open>
  Claim C3: for positive factors the chroma expansion of the inverse function undoes the
  chroma compression of the forward function on every \<open>G \<ge> 0\<close>, and the \<open>a\<close> and \<open>b\<close>
  channels of a finite triple come back from the round trip unchanged, whatever the
  lightness channel holds.
\<close>

theorem chroma_expansion_inverts_compression:
  assumes "0 < k_E" and "0 < k_CH"
  shows "(0 \<le> G \<longrightarrow>
           (exp (0.045 * (ln (1 + 0.045 * G) / (0.045 * k_CH * k_E)) * k_CH * k_E) - 1) / 0.045 = G)
         \<and> snd (DIN99_to_Lab (Lab_to_DIN99 (L, Fin a, Fin b) k_E k_CH) k_E k_CH) = (Fin a, Fin b)"
proof -
  have "(exp (0.045 * (ln (1 + 0.045 * G) / (0.045 * k_CH * k_E)) * k_CH * k_E) - 1) / 0.045 = G"
    if "0 \<le> G"
  proof -
    have "0 \<le> 0.045 * G" using that by simp
    then have arg: "0 < 1 + 0.045 * G" by linarith
    have "0.045 * (ln (1 + 0.045 * G) / (0.045 * k_CH * k_E)) * k_CH * k_E = ln (1 + 0.045 * G)"
      using assms by simp
    then show ?thesis using arg by simp
  qed
  then show ?thesis using ab_roundtrip [OF assms] by simp
qed

text \<open>
  Claim C3 at \<open>k_E = 2\<close>, \<open>k_CH = 3\<close>, \<open>G = 5\<close> and the chroma \<open>(3, -4)\<close> beside a NaN
  lightness.
\<close>

theorem chroma_expansion_inverts_compression_witness:
  "(0::real) < 2 \<and> (0::real) < 3 \<and> (0::real) \<le> 5
   \<and> (exp (0.045 * (ln (1 + 0.045 * 5) / (0.045 * 3 * 2)) * 3 * 2) - 1) / 0.045 = (5::real)
   \<and> snd (DIN99_to_Lab (Lab_to_DIN99 (NaN, Fin 3, Fin (- 4)) 2 3) 2 3) = (Fin 3, Fin (- 4))"
  using chroma_expansion_inverts_compression [of 2 3 5 NaN 3 "- 4"] by simp

text \<open>
  Claim C4: the \<open>L_99\<close> channel computed with the factor \<open>k_E\<close> is \<open>k_E\<close> times the
  \<open>L_99\<close> channel computed with the factor 1, in the arithmetic of the array values; on
  an in-domain lightness both are finite and the product is the product of reals.
\<close>

theorem L99_linear_in_k_E:
  "fst (Lab_to_DIN99 (L, a, b) k_E k_CH) = np_mul (Fin k_E) (fst (Lab_to_DIN99 (L, a, b) 1 k_CH))
   \<and> (0 < 1 + 0.0158 * x \<longrightarrow>
        (\<exists>r. fst (Lab_to_DIN99 (Fin x, a, b) 1 k_CH) = Fin r
            \<and> fst (Lab_to_DIN99 (Fin x, a, b) k_E k_CH) = Fin (k_E * r)))"
proof -
  have "fst (Lab_to_DIN99 (L, a, b) k_E k_CH) = np_mul (Fin k_E) (fst (Lab_to_DIN99 (L, a, b) 1 k_CH))"
    by (simp only: Lab_to_DIN99_L np_mul_one fst_conv np_mul_commute [of _ "Fin k_E"])
  moreover have "\<exists>r. fst (Lab_to_DIN99 (Fin x, a, b) 1 k_CH) = Fin r
            \<and> fst (Lab_to_DIN99 (Fin x, a, b) k_E k_CH) = Fin (k_E * r)" if "0 < 1 + 0.0158 * x"
  proof (intro exI conjI)
    show "fst (Lab_to_DIN99 (Fin x, a, b) 1 k_CH) = Fin (105.509 * ln (1 + 0.0158 * x) * 1)"
      by (rule Lab_to_DIN99_L_Fin [OF that])
    show "fst (Lab_to_DIN99 (Fin x, a, b) k_E k_CH)
            = Fin (k_E * (105.509 * ln (1 + 0.0158 * x) * 1))"
      by (simp add: Lab_to_DIN99_L_Fin [OF that])
  qed
  ultimately show ?thesis by blast
qed

text \<open>
  Claim C4 at \<open>Lab = (50, 1, 2)\<close> and \<open>k_E = 3\<close>.
\<close>

theorem L99_linear_in_k_E_witness:
  "fst (Lab_to_DIN99 (Fin 50, Fin 1, Fin 2) 3 1) = np_mul (Fin 3) (fst (Lab_to_DIN99 (Fin 50, Fin 1, Fin 2) 1 1))
   \<and> (0::real) < 1 + 0.0158 * 50
   \<and> (\<exists>r. fst (Lab_to_DIN99 (Fin 50, Fin 1, Fin 2) 1 1) = Fin r
            \<and> fst (Lab_to_DIN99 (Fin 50, Fin 1, Fin 2) 3 1) = Fin (3 * r))"
proof -
  have dom: "(0::real) < 1 + 0.0158 * 50" by simp
  from L99_linear_in_k_E [of "Fin 50" "Fin 1" "Fin 2" 3 1 50] dom show ?thesis by blast
qed




text \<open>
  Claim C7 (an achromatic triple has \<open>a_99 = b_99 = 0\<close> for every \<open>k_E\<close>, \<open>k_CH\<close>)
  fails at \<open>k_E = 0\<close>: the chroma is \<open>0 / 0\<close>, which is NaN.
\<close>

theorem achromatic_with_k_E_0:
  "snd (Lab_to_DIN99 (Fin 50, Fin 0, Fin 0) 0 1) = (NaN, NaN)"
  by (simp add: Lab_to_DIN99_Fin)

text \<open>
  Claim C7 as amended: for factors other than zero an achromatic triple \<open>(L, 0, 0)\<close>
  has \<open>a_99 = b_99 = 0\<close>, whatever \<open>L\<close> is.
\<close>

theorem achromatic_fixed_point:
  assumes "k_E \<noteq> 0" and "k_CH \<noteq> 0"
  shows "snd (Lab_to_DIN99 (L, Fin 0, Fin 0) k_E k_CH) = (Fin 0, Fin 0)"
  using assms by (simp add: Lab_to_DIN99_Fin)

text \<open>
  Claim C7 as amended, at \<open>Lab = (50, 0, 0)\<close>, \<open>k_E = 2\<close>, \<open>k_CH = -3\<close>.
\<close>

theorem achromatic_fixed_point_witness:
  "(2::real) \<noteq> 0 \<and> (- 3::real) \<noteq> 0
   \<and> snd (Lab_to_DIN99 (Fin 50, Fin 0, Fin 0) 2 (- 3)) = (Fin 0, Fin 0)"
  using achromatic_fixed_point [of 2 "- 3" "Fin 50"] by simp

text \<open>
  Claim C8 (\<open>(0, 0, 0)\<close> is a fixed point of both functions for every \<open>k_E\<close>,
  \<open>k_CH\<close>) fails for the forward function at \<open>k_CH = 0\<close>.
\<close>

theorem zero_point_with_k_CH_0:
  "Lab_to_DIN99 (Fin 0, Fin 0, Fin 0) 1 0 = (Fin 0, NaN, NaN)"
  by (simp add: Lab_to_DIN99_Fin)

text \<open>
  Claim C8 as amended: \<open>(0, 0, 0)\<close> is a fixed point of \<open>Lab_to_DIN99\<close> for factors
  other than zero, and of \<open>DIN99_to_Lab\<close> for all factors.
\<close>

theorem zero_point:
  "(k_E \<noteq> 0 \<and> k_CH \<noteq> 0 \<longrightarrow> Lab_to_DIN99 (Fin 0, Fin 0, Fin 0) k_E k_CH = (Fin 0, Fin 0, Fin 0))
   \<and> DIN99_to_Lab (Fin 0, Fin 0, Fin 0) k_E k_CH = (Fin 0, Fin 0, Fin 0)"
  by (simp add: Lab_to_DIN99_Fin DIN99_to_Lab_Fin arctan2_zero np_sub_def)

text \<open>
  Claim C8 as amended, at \<open>k_E = 2\<close>, \<open>k_CH = 5\<close>.
\<close>

theorem zero_point_witness:
  "(2::real) \<noteq> 0 \<and> (5::real) \<noteq> 0
   \<and> Lab_to_DIN99 (Fin 0, Fin 0, Fin 0) 2 5 = (Fin 0, Fin 0, Fin 0)
   \<and> DIN99_to_Lab (Fin 0, Fin 0, Fin 0) 2 5 = (Fin 0, Fin 0, Fin 0)"
  using zero_point [of 2 5] by simp

text \<open>
  Claim C9: on a batch of \<open>N\<close> triples each function returns, at every position, what
  it returns on that triple alone, and the batch keeps its length.
\<close>

theorem batch_independence:
  "Lab_to_DIN99_batch xs k_E k_CH = map (\<lambda>x. Lab_to_DIN99 x k_E k_CH) xs
   \<and> DIN99_to_Lab_batch xs k_E k_CH = map (\<lambda>x. DIN99_to_Lab x k_E k_CH) xs
   \<and> length (Lab_to_DIN99_batch xs k_E k_CH) = length xs
   \<and> length (DIN99_to_Lab_batch xs k_E k_CH) = length xs"
  by (simp add: Lab_to_DIN99_batch_map DIN99_to_Lab_batch_map)


end
